theory Spec2Isabelle
  imports Complex_Main "HOL-Library.Monad_Syntax"
begin

section \<open>Types and constants\<close>

text \<open>
  The weekly habit tracker of \<^verbatim>\<open>countdown-timer.tsx\<close>. The TypeScript object types
  become records; the fields \<^verbatim>\<open>id\<close> and \<^verbatim>\<open>label\<close>, shared by several types,
  carry the name of their type as a prefix, as do \<^verbatim>\<open>note\<close> and \<^verbatim>\<open>section\<close>.
  A JavaScript \<^verbatim>\<open>number\<close> that holds a length or an index is a \<open>nat\<close>;
  one that holds a progress value is a \<open>real\<close>
  (the sums of at most seven steps that occur here are far from any rounding boundary of
  \<^verbatim>\<open>toFixed(2)\<close>, so exact arithmetic and double arithmetic print the same decimals).
\<close>

datatype Section = Studies | PersonalLife

record TaskTemplate =
  task_id :: string
  task_label :: string

record DayState =
  completedTasks :: "string list"
  day_note :: "string option"

record Goal =
  goal_id :: string
  goal_label :: string
  goal_section :: Section
  tasks :: "TaskTemplate list"
  days :: "DayState list"

record WeekSummary =
  summary_id :: string
  startISO :: string
  endISO :: string
  totalCompletedTasks :: nat
  totalPossibleTasks :: nat
  bestGoalId :: "string option"
  bestGoalLabel :: "string option"
  bestGoalCompletion :: real

record TrackerState =
  weekStartISO :: string
  goals :: "Goal list"
  history :: "WeekSummary list"

text \<open>What a JavaScript operation of the model can throw.\<close>

datatype error =
  TypeError | RangeError | SyntaxError | ReferenceError | SecurityError | QuotaExceededError

definition NUM_DAYS :: nat where
  "NUM_DAYS = 7"

definition STORAGE_KEY :: string where
  "STORAGE_KEY = ''TRACK_MY_LIFE_V3''"

section \<open>Seed data\<close>

definition emptyDay :: DayState where
  "emptyDay = \<lparr>completedTasks = [], day_note = Some ''''\<rparr>"

definition emptyDays :: "DayState list" where
  "emptyDays = replicate NUM_DAYS emptyDay"

definition mkTask :: "string \<Rightarrow> string \<Rightarrow> TaskTemplate" where
  "mkTask i l = \<lparr>task_id = i, task_label = l\<rparr>"

definition seedGoals :: "Goal list" where
  "seedGoals =
    [\<lparr>goal_id = ''intro-llm'', goal_label = ''Intro to LLM'', goal_section = Studies,
      tasks = [mkTask ''llm-notes'' ''Review lecture notes'',
               mkTask ''llm-ex'' ''Solve 2 practice questions'',
               mkTask ''llm-reading'' ''Read 5 pages'',
               mkTask ''llm-video'' ''Watch 10 min recap''],
      days = emptyDays\<rparr>,
     \<lparr>goal_id = ''sdms'', goal_label = ''SDMS'', goal_section = Studies,
      tasks = [mkTask ''sdms-reading'' ''Read 3 pages of script'',
               mkTask ''sdms-quiz'' ''Do 5 quiz questions'',
               mkTask ''sdms-notes'' ''Organise notes''],
      days = emptyDays\<rparr>,
     \<lparr>goal_id = ''pgm'', goal_label = ''PGM'', goal_section = Studies,
      tasks = [mkTask ''pgm-slides'' ''Scan slides 10 min'',
               mkTask ''pgm-problem'' ''Attempt 1 problem'',
               mkTask ''pgm-solution'' ''Check 1 solution''],
      days = emptyDays\<rparr>,
     \<lparr>goal_id = ''crypto'', goal_label = ''Intro to Crypto'', goal_section = Studies,
      tasks = [mkTask ''crypto-topic'' ''Read 1 topic'',
               mkTask ''crypto-summary'' ''Write 3 bullet summary''],
      days = emptyDays\<rparr>,
     \<lparr>goal_id = ''german-a2'', goal_label = ''German A2'', goal_section = Studies,
      tasks = [mkTask ''german-vocab'' ''Learn 5 new words'',
               mkTask ''german-speak'' ''Speak 5 min'',
               mkTask ''german-grammar'' ''One grammar exercise''],
      days = emptyDays\<rparr>,
     \<lparr>goal_id = ''content-workout'', goal_label = ''Content Creation + Workout'',
      goal_section = PersonalLife,
      tasks = [mkTask ''content-idea'' ''Brainstorm 3 ideas'',
               mkTask ''content-draft'' ''Draft 1 post/reel'',
               mkTask ''workout-20'' ''20 min workout'',
               mkTask ''walk-steps'' ''5k steps''],
      days = emptyDays\<rparr>,
     \<lparr>goal_id = ''guitar'', goal_label = ''Guitar'', goal_section = PersonalLife,
      tasks = [mkTask ''guitar-chords'' ''Practice chords 10 min'',
               mkTask ''guitar-song'' ''Play 1 full song'',
               mkTask ''guitar-metronome'' ''5 min with metronome''],
      days = emptyDays\<rparr>,
     \<lparr>goal_id = ''eng-speaking'', goal_label = ''Eng speaking'', goal_section = PersonalLife,
      tasks = [mkTask ''eng-shadow'' ''Shadow 5 min video'',
               mkTask ''eng-record'' ''Record 2 min monologue'',
               mkTask ''eng-words'' ''Learn 5 new phrases''],
      days = emptyDays\<rparr>]"

text \<open>
  \<^verbatim>\<open>defaultState()\<close>; the argument is the value of \<^verbatim>\<open>todayISO()\<close> at the call.
\<close>

definition defaultState :: "string \<Rightarrow> TrackerState" where
  "defaultState today = \<lparr>weekStartISO = today, goals = seedGoals, history = []\<rparr>"

section \<open>Progress helpers\<close>

definition stepForDay :: "nat \<Rightarrow> nat \<Rightarrow> real" where
  "stepForDay tasksCompleted totalTasks =
     (if tasksCompleted \<le> 0 then 0
      else if tasksCompleted \<ge> totalTasks then 1.0
      else if tasksCompleted \<ge> 4 then 0.8
      else if tasksCompleted \<ge> 2 then 0.5
      else 0.2)"

text \<open>
  \<^verbatim>\<open>Number(x.toFixed(2))\<close>: the nearest multiple of one hundredth, the larger one
  when two are equally near; a negative \<open>x\<close> is rounded through its absolute value.
\<close>

definition toFixed2 :: "real \<Rightarrow> real" where
  "toFixed2 x =
     (if x < 0 then - (of_int (round (- x * 100)) / 100)
      else of_int (round (x * 100)) / 100)"

definition totalBlocks :: "Goal \<Rightarrow> real" where
  "totalBlocks goal =
     (let totalTasks = length (tasks goal);
          blocks = foldl (\<lambda>sum day.
                      let c = length (completedTasks day)
                      in sum + stepForDay c totalTasks) 0 (days goal)
      in min (real NUM_DAYS) (toFixed2 blocks))"

definition completionPct :: "Goal \<Rightarrow> real" where
  "completionPct goal = (totalBlocks goal / real NUM_DAYS) * 100"

text \<open>
  The backward loop of \<^verbatim>\<open>streakDays\<close>, from index \<open>i\<close> down to 0. Reading
  \<^verbatim>\<open>goal.days[i].completedTasks\<close> past the end of the array is a TypeError.
\<close>

function streakLoop :: "DayState list \<Rightarrow> int \<Rightarrow> nat \<Rightarrow> error + nat" where
  "streakLoop ds i streak =
     (if i \<ge> 0 then
        (if nat i < length ds then
           (if length (completedTasks (ds ! nat i)) > 0
            then streakLoop ds (i - 1) (streak + 1)
            else Inr streak)
         else Inl TypeError)
      else Inr streak)"
  by pat_completeness auto
termination
  by (relation "measure (\<lambda>(ds, i, streak). nat (i + 1))") auto

definition streakDays :: "Goal \<Rightarrow> error + nat" where
  "streakDays goal = streakLoop (days goal) (int NUM_DAYS - 1) 0"

text \<open>The sum of the daily steps of a goal, as the specification words it.\<close>

definition stepSum :: "Goal \<Rightarrow> real" where
  "stepSum goal =
     (\<Sum>day\<leftarrow>days goal. stepForDay (length (completedTasks day)) (length (tasks goal)))"

text \<open>Rounding to two decimal places.\<close>

definition round2 :: "real \<Rightarrow> real" where
  "round2 x = of_int (round (x * 100)) / 100"

text \<open>The trailing run of days with a completed task.\<close>

definition trailingRun :: "DayState list \<Rightarrow> nat" where
  "trailingRun ds = length (takeWhile (\<lambda>d. completedTasks d \<noteq> []) (rev ds))"

section \<open>Check-in mutations\<close>

text \<open>
  A JavaScript \<^verbatim>\<open>Set\<close> of strings, as the list of its elements in insertion order:
  \<^verbatim>\<open>new Set(xs)\<close> adds the elements of \<open>xs\<close> one by one, \<^verbatim>\<open>Array.from\<close> reads the
  list back.
\<close>

definition setAdd :: "string list \<Rightarrow> string \<Rightarrow> string list" where
  "setAdd s x = (if x \<in> set s then s else s @ [x])"

definition setDelete :: "string list \<Rightarrow> string \<Rightarrow> string list" where
  "setDelete s x = filter (\<lambda>y. y \<noteq> x) s"

definition newSet :: "string list \<Rightarrow> string list" where
  "newSet xs = foldl setAdd [] xs"

text \<open>The state updaters of \<^verbatim>\<open>handleToggleTask\<close> and \<^verbatim>\<open>handleUpdateNote\<close>.\<close>

definition handleToggleTask :: "string \<Rightarrow> string \<Rightarrow> nat \<Rightarrow> TrackerState \<Rightarrow> TrackerState" where
  "handleToggleTask goalId taskId dIndex prev =
     (let nextGoals = map (\<lambda>g.
            if goal_id g \<noteq> goalId then g
            else
              let days' = map (\<lambda>(idx, day).
                    if idx \<noteq> dIndex then day
                    else
                      let completed = newSet (completedTasks day);
                          completed' = (if taskId \<in> set completed
                                        then setDelete completed taskId
                                        else setAdd completed taskId)
                      in day\<lparr>completedTasks := completed'\<rparr>) (enumerate 0 (days g))
              in g\<lparr>days := days'\<rparr>) (goals prev)
      in prev\<lparr>goals := nextGoals\<rparr>)"

definition handleUpdateNote :: "string \<Rightarrow> nat \<Rightarrow> string \<Rightarrow> TrackerState \<Rightarrow> TrackerState" where
  "handleUpdateNote goalId dIndex text prev =
     (let nextGoals = map (\<lambda>g.
            if goal_id g \<noteq> goalId then g
            else
              let days' = map (\<lambda>(idx, day).
                    if idx = dIndex then day\<lparr>day_note := Some text\<rparr> else day)
                    (enumerate 0 (days g))
              in g\<lparr>days := days'\<rparr>) (goals prev)
      in prev\<lparr>goals := nextGoals\<rparr>)"

section \<open>Week rollover\<close>

text \<open>
  \<^verbatim>\<open>handleStartNewWeek\<close>. The goals are paired with their percentage and sorted by
  descending percentage; \<^verbatim>\<open>Array.prototype.sort\<close> is stable, as is \<open>sort_key\<close>.
  Two values come from the \<^verbatim>\<open>Date\<close> library and are parameters: \<open>endDate\<close> maps the
  week start to the ISO date six days later, and fails with a RangeError where
  \<^verbatim>\<open>toISOString\<close> does (the stored week start is not a date); \<open>today\<close> is
  \<^verbatim>\<open>todayISO()\<close>. An exception leaves the state as it was.
\<close>

definition bestOf :: "Goal list \<Rightarrow> (Goal \<times> real) option" where
  "bestOf gs =
     (case sort_key (\<lambda>p. - snd p) (map (\<lambda>g. (g, completionPct g)) gs) of
        [] \<Rightarrow> None
      | p # _ \<Rightarrow> Some p)"

definition weekSummary :: "string \<Rightarrow> TrackerState \<Rightarrow> WeekSummary" where
  "weekSummary end_iso state =
     (let totalPossible = foldl (\<lambda>sum g. sum + length (tasks g) * NUM_DAYS) 0 (goals state);
          totalCompleted = foldl (\<lambda>sum g.
              sum + foldl (\<lambda>inner d. inner + length (completedTasks d)) 0 (days g))
            0 (goals state);
          bestGoal = bestOf (goals state)
      in \<lparr>summary_id = weekStartISO state,
          startISO = weekStartISO state,
          endISO = end_iso,
          totalCompletedTasks = totalCompleted,
          totalPossibleTasks = totalPossible,
          bestGoalId = map_option (\<lambda>p. goal_id (fst p)) bestGoal,
          bestGoalLabel = map_option (\<lambda>p. goal_label (fst p)) bestGoal,
          bestGoalCompletion = (case bestGoal of None \<Rightarrow> 0 | Some p \<Rightarrow> snd p)\<rparr>)"

definition handleStartNewWeek ::
    "(string \<Rightarrow> error + string) \<Rightarrow> string \<Rightarrow> TrackerState \<Rightarrow> error + TrackerState" where
  "handleStartNewWeek endDate today state =
     (case endDate (weekStartISO state) of
        Inl e \<Rightarrow> Inl e
      | Inr end_iso \<Rightarrow>
          let summary = weekSummary end_iso state;
              newWeekStart = today
          in Inr \<lparr>weekStartISO = newWeekStart,
                  goals = map (\<lambda>g. g\<lparr>days := emptyDays\<rparr>) (goals state),
                  history = history state @ [summary]\<rparr>)"

text \<open>
  The highest percentage, the first goal in list order winning a tie, as the
  specification words the choice of the best goal.
\<close>

fun firstMax :: "Goal list \<Rightarrow> Goal option" where
  "firstMax [] = None"
| "firstMax (g # gs) =
     (case firstMax gs of
        None \<Rightarrow> Some g
      | Some b \<Rightarrow> if completionPct g < completionPct b then Some b else Some g)"

text \<open>The states that the three public operations reach from a seed state.\<close>

inductive reachable :: "(string \<Rightarrow> error + string) \<Rightarrow> TrackerState \<Rightarrow> bool"
  for endDate :: "string \<Rightarrow> error + string" where
  seed: "reachable endDate (defaultState today)"
| toggle: "reachable endDate s \<Longrightarrow> reachable endDate (handleToggleTask goalId taskId dIndex s)"
| setNote: "reachable endDate s \<Longrightarrow> reachable endDate (handleUpdateNote goalId dIndex text s)"
| rollover: "reachable endDate s \<Longrightarrow> handleStartNewWeek endDate today s = Inr s'
     \<Longrightarrow> reachable endDate s'"

section \<open>Storage helpers\<close>

text \<open>
  The browser as \<^verbatim>\<open>loadState\<close> and \<^verbatim>\<open>saveState\<close> see it: whether there is a
  \<^verbatim>\<open>window\<close>, whether the page may use \<^verbatim>\<open>localStorage\<close>, how many characters an
  entry may hold, and the stored entries.
\<close>

record browser =
  hasWindow :: bool
  storageDenied :: bool
  quota :: nat
  items :: "string \<rightharpoonup> string"

definition getItem :: "browser \<Rightarrow> string \<Rightarrow> error + string option" where
  "getItem b k =
     (if \<not> hasWindow b then Inl ReferenceError
      else if storageDenied b then Inl SecurityError
      else Inr (items b k))"


text \<open>
  \<^verbatim>\<open>JSON.parse\<close> and \<^verbatim>\<open>JSON.stringify\<close> belong to the language, not to the
  program: they are the parameters \<open>JSON_parse\<close> (with the unchecked cast to
  \<^verbatim>\<open>TrackerState\<close>; \<open>Inl SyntaxError\<close> on a text that is not JSON) and
  \<open>JSON_stringify\<close>. The body of the \<^verbatim>\<open>try\<close> block comes first, then the function
  with its \<^verbatim>\<open>catch\<close>.
\<close>

definition loadState_try ::
    "(string \<Rightarrow> error + TrackerState) \<Rightarrow> string \<Rightarrow> browser \<Rightarrow> error + TrackerState" where
  "loadState_try JSON_parse today b =
     (case getItem b STORAGE_KEY of
        Inl e \<Rightarrow> Inl e
      | Inr raw \<Rightarrow>
          (case raw of
             None \<Rightarrow> Inr (defaultState today)
           | Some r \<Rightarrow> if r = [] then Inr (defaultState today) else JSON_parse r))"

definition loadState ::
    "(string \<Rightarrow> error + TrackerState) \<Rightarrow> string \<Rightarrow> browser \<Rightarrow> error + TrackerState" where
  "loadState JSON_parse today b =
     (if \<not> hasWindow b then Inr (defaultState today)
      else case loadState_try JSON_parse today b of
             Inl e \<Rightarrow> Inr (defaultState today)
           | Inr state \<Rightarrow> Inr state)"


section \<open>JSON\<close>

text \<open>
  \<^verbatim>\<open>JSON.stringify\<close> and \<^verbatim>\<open>JSON.parse\<close> as ECMA-262 defines them, on the values
  that a \<^verbatim>\<open>TrackerState\<close> holds. A JSON document is a tree; \<^verbatim>\<open>JSON.stringify\<close> writes
  the tree of an object as text without white space, \<^verbatim>\<open>JSON.parse\<close> reads a text back
  into a tree. Characters are the 8-bit characters of \<open>string\<close>.
\<close>

datatype json =
  JNull | JBool bool | JNum real | JStr string | JArr "json list" | JObj "(string \<times> json) list"

subsection \<open>Strings\<close>

text \<open>
  A string is written between double quotes; the quote, the backslash and the control
  characters are escaped (\<^verbatim>\<open>\b \f \n \r \t\<close>, or \<^verbatim>\<open>\u00XX\<close> in lower-case hexadecimal).
  The reader takes these escapes and \<^verbatim>\<open>\/\<close>, with hexadecimal digits of either case,
  and refuses a control character that is not escaped. An escape above \<^verbatim>\<open>\u00FF\<close>
  names a character that \<open>string\<close> does not have, and is refused as well.
\<close>

definition dquote :: char where "dquote = CHR 0x22"
definition bslash :: char where "bslash = CHR 0x5C"

definition isDigit :: "char \<Rightarrow> bool" where
  "isDigit c = (48 \<le> (of_char c :: nat) \<and> (of_char c :: nat) \<le> 57)"

definition isControl :: "char \<Rightarrow> bool" where
  "isControl c = ((of_char c :: nat) < 32)"



definition hexDigit :: "nat \<Rightarrow> char" where
  "hexDigit n = (if n < 10 then char_of (48 + n) else char_of (87 + n))"

definition hexVal :: "char \<Rightarrow> nat option" where
  "hexVal c =
     (let n = (of_char c :: nat) in
      if 48 \<le> n \<and> n \<le> 57 then Some (n - 48)
      else if 97 \<le> n \<and> n \<le> 102 then Some (n - 87)
      else if 65 \<le> n \<and> n \<le> 70 then Some (n - 55)
      else None)"

definition escapeChar :: "char \<Rightarrow> string" where
  "escapeChar c =
     (if c = dquote then [bslash, dquote]
      else if c = bslash then [bslash, bslash]
      else if c = CHR 0x08 then [bslash, CHR ''b'']
      else if c = CHR 0x0C then [bslash, CHR ''f'']
      else if c = CHR 0x0A then [bslash, CHR ''n'']
      else if c = CHR 0x0D then [bslash, CHR ''r'']
      else if c = CHR 0x09 then [bslash, CHR ''t'']
      else if isControl c then
        [bslash, CHR ''u'', CHR ''0'', CHR ''0'',
         hexDigit (of_char c div 16), hexDigit (of_char c mod 16)]
      else [c])"

definition quoteJSONString :: "string \<Rightarrow> string" where
  "quoteJSONString s = dquote # concat (map escapeChar s) @ [dquote]"

definition unescapeChar :: "char \<Rightarrow> char option" where
  "unescapeChar e =
     (if e = dquote then Some dquote
      else if e = bslash then Some bslash
      else if e = CHR ''/'' then Some (CHR ''/'')
      else if e = CHR ''b'' then Some (CHR 0x08)
      else if e = CHR ''f'' then Some (CHR 0x0C)
      else if e = CHR ''n'' then Some (CHR 0x0A)
      else if e = CHR ''r'' then Some (CHR 0x0D)
      else if e = CHR ''t'' then Some (CHR 0x09)
      else None)"

definition hex4 :: "char \<Rightarrow> char \<Rightarrow> char \<Rightarrow> char \<Rightarrow> char option" where
  "hex4 a b c d =
     (case (hexVal a, hexVal b, hexVal c, hexVal d) of
        (Some x, Some y, Some z, Some w) \<Rightarrow>
          if x = 0 \<and> y = 0 then Some (char_of (16 * z + w)) else None
      | _ \<Rightarrow> None)"

fun parseChars :: "string \<Rightarrow> (string \<times> string) option" where
  "parseChars [] = None"
| "parseChars (c # cs) =
     (if c = dquote then Some ([], cs)
      else if c = bslash then
        (case cs of
           [] \<Rightarrow> None
         | e # es \<Rightarrow>
             if e = CHR ''u'' then
               (case es of
                  a # b # x # y # rest \<Rightarrow>
                    (case hex4 a b x y of
                       None \<Rightarrow> None
                     | Some ch \<Rightarrow>
                         (case parseChars rest of
                            None \<Rightarrow> None
                          | Some (str, r) \<Rightarrow> Some (ch # str, r)))
                | _ \<Rightarrow> None)
             else
               (case unescapeChar e of
                  None \<Rightarrow> None
                | Some ch \<Rightarrow>
                    (case parseChars es of
                       None \<Rightarrow> None
                     | Some (str, r) \<Rightarrow> Some (ch # str, r))))
      else if isControl c then None
      else
        (case parseChars cs of
           None \<Rightarrow> None
         | Some (str, r) \<Rightarrow> Some (c # str, r)))"

subsection \<open>Numbers\<close>

text \<open>
  A natural number below \<open>10\<^sup>2\<^sup>1\<close> is written in decimal digits, and a token of digits
  without a leading zero is read as that number. Every other number is a double that
  JavaScript writes with the shortest digits that read back as the same double; this is
  floating point, and stays outside: \<open>showNumber\<close> and \<open>readNumber\<close> are parameters.
  A number token is the longest run of digits, signs, points and exponent marks.
\<close>

definition numChar :: "char \<Rightarrow> bool" where
  "numChar c = (isDigit c \<or> c = CHR ''-'' \<or> c = CHR ''+'' \<or> c = CHR ''.''
      \<or> c = CHR ''e'' \<or> c = CHR ''E'')"

definition numStart :: "char \<Rightarrow> bool" where
  "numStart c = (isDigit c \<or> c = CHR ''-'')"

fun digits :: "nat \<Rightarrow> string" where
  "digits n = (if n < 10 then [char_of (48 + n)] else digits (n div 10) @ [char_of (48 + n mod 10)])"

definition decimal :: "string \<Rightarrow> nat" where
  "decimal t = foldl (\<lambda>a c. 10 * a + (of_char c - 48)) 0 t"

definition isNatToken :: "string \<Rightarrow> bool" where
  "isNatToken t = (t \<noteq> [] \<and> list_all isDigit t \<and> (length t = 1 \<or> hd t \<noteq> CHR ''0''))"

definition showNum :: "(real \<Rightarrow> string) \<Rightarrow> real \<Rightarrow> string" where
  "showNum showNumber x =
     (if 0 \<le> x \<and> x < 10 ^ 21 \<and> x = of_int \<lfloor>x\<rfloor> then digits (nat \<lfloor>x\<rfloor>) else showNumber x)"

definition readNum :: "(string \<Rightarrow> real option) \<Rightarrow> string \<Rightarrow> real option" where
  "readNum readNumber t = (if isNatToken t then Some (real (decimal t)) else readNumber t)"

subsection \<open>Writing and reading a document\<close>






subsection \<open>Numbers of a document and their round trip\<close>

text \<open>
  \<open>numberPrints\<close> says of one number that its text is a number token and reads back
  as the number. \<open>delimited\<close> describes the text that may follow a value.
\<close>

declare digits.simps [simp del]


definition numberPrints :: "(real \<Rightarrow> string) \<Rightarrow> (string \<Rightarrow> real option) \<Rightarrow> real \<Rightarrow> bool" where
  "numberPrints sh rd x =
     (readNum rd (showNum sh x) = Some x \<and> showNum sh x \<noteq> []
      \<and> numStart (hd (showNum sh x)) \<and> list_all numChar (showNum sh x))"

definition delimited :: "string \<Rightarrow> bool" where
  "delimited rest =
     (case rest of [] \<Rightarrow> True | c # cs \<Rightarrow> c = CHR '','' \<or> c = CHR '']'' \<or> c = CHR ''}'')"

subsection \<open>The state as a document\<close>









definition asString :: "json \<Rightarrow> string option" where
  "asString j = (case j of JStr s \<Rightarrow> Some s | _ \<Rightarrow> None)"













text \<open>The numbers of a state, all in its history, print and read back.\<close>

definition numbersPrint :: "(real \<Rightarrow> string) \<Rightarrow> (string \<Rightarrow> real option) \<Rightarrow> TrackerState \<Rightarrow> bool" where
  "numbersPrint sh rd s =
     list_all (\<lambda>w. numberPrints sh rd (real (totalCompletedTasks w))
                 \<and> numberPrints sh rd (real (totalPossibleTasks w))
                 \<and> numberPrints sh rd (bestGoalCompletion w)) (history s)"

section \<open>Auxiliary notions\<close>

text \<open>The day that \<^verbatim>\<open>handleToggleTask\<close> writes at the chosen index.\<close>

definition toggled :: "string \<Rightarrow> DayState \<Rightarrow> DayState" where
  "toggled taskId day =
     (let completed = newSet (completedTasks day);
          completed' = (if taskId \<in> set completed
                        then setDelete completed taskId
                        else setAdd completed taskId)
      in day\<lparr>completedTasks := completed'\<rparr>)"

text \<open>Every goal has seven days; every day has a note.\<close>

definition weekInv :: "TrackerState \<Rightarrow> bool" where
  "weekInv s = list_all (\<lambda>g. length (days g) = 7) (goals s)"

definition notesDefined :: "TrackerState \<Rightarrow> bool" where
  "notesDefined s = list_all (\<lambda>g. list_all (\<lambda>d. day_note d \<noteq> None) (days g)) (goals s)"

text \<open>
  The two scenarios of the specification: a goal with four tasks, all done on day 0 and
  none later; a goal with two tasks, one of them done on each day. Then a state that
  holds both, a \<^verbatim>\<open>Date\<close> library that knows its week, and a browser with empty storage.
\<close>

definition goalLeap :: Goal where
  "goalLeap =
     \<lparr>goal_id = ''leap'', goal_label = ''G'', goal_section = Studies,
      tasks = [mkTask ''a'' ''A'', mkTask ''b'' ''B'', mkTask ''c'' ''C'', mkTask ''d'' ''D''],
      days = \<lparr>completedTasks = [''a'', ''b'', ''c'', ''d''], day_note = Some ''''\<rparr>
               # replicate 6 emptyDay\<rparr>"

definition goalSteady :: Goal where
  "goalSteady =
     \<lparr>goal_id = ''steady'', goal_label = ''H'', goal_section = PersonalLife,
      tasks = [mkTask ''a'' ''A'', mkTask ''b'' ''B''],
      days = replicate 7 \<lparr>completedTasks = [''a''], day_note = Some ''''\<rparr>\<rparr>"

definition sampleState :: TrackerState where
  "sampleState = \<lparr>weekStartISO = ''2025-01-06'', goals = [goalLeap, goalSteady], history = []\<rparr>"

definition sampleEndDate :: "string \<Rightarrow> error + string" where
  "sampleEndDate start = (if start = ''2025-01-06'' then Inr ''2025-01-12'' else Inl RangeError)"

definition sampleBrowser :: browser where
  "sampleBrowser = \<lparr>hasWindow = True, storageDenied = False, quota = 5000000, items = Map.empty\<rparr>"







section \<open>Steps\<close>

lemma stepForDay_nonneg: "0 \<le> stepForDay c T"
  by (simp add: stepForDay_def)

lemma stepForDay_le_one: "stepForDay c T \<le> 1"
  by (simp add: stepForDay_def)

lemma stepForDay_mono: "c \<le> c' \<Longrightarrow> stepForDay c T \<le> stepForDay c' T"
  by (simp add: stepForDay_def)

text \<open>
  Claim C1. \<open>stepForDay c T\<close> is the first matching case of: \<open>c = 0\<close> gives 0,
  \<open>c \<ge> T\<close> gives 1, \<open>c \<ge> 4\<close> gives 0.8, \<open>c \<ge> 2\<close> gives 0.5, otherwise 0.2.
  So no completed task gives 0 and all \<open>T \<ge> 1\<close> tasks give 1, and a goal without
  tasks contributes 0.
\<close>

theorem stepForDay_cases:
  "stepForDay c T =
     (if c = 0 then 0 else if c \<ge> T then 1 else if c \<ge> 4 then 0.8
      else if c \<ge> 2 then 0.5 else 0.2)
   \<and> stepForDay 0 T = 0
   \<and> (1 \<le> T \<longrightarrow> stepForDay T T = 1)
   \<and> stepForDay 0 0 = 0"
  by (simp add: stepForDay_def)

theorem stepForDay_cases_witness:
  "stepForDay 3 4 = 0.5 \<and> stepForDay 0 4 = 0 \<and> (1::nat) \<le> 4 \<and> stepForDay 4 4 = 1
   \<and> stepForDay 0 0 = 0"
  using stepForDay_cases [of 3 4] by simp

section \<open>Weekly blocks\<close>

lemma foldl_steps:
  "foldl (\<lambda>sum day. sum + stepForDay (length (completedTasks day)) T) a ds
     = a + (\<Sum>day\<leftarrow>ds. stepForDay (length (completedTasks day)) T)"
  by (induction ds arbitrary: a) simp_all

lemma totalBlocks_stepSum: "totalBlocks goal = min 7 (toFixed2 (stepSum goal))"
  by (simp add: totalBlocks_def stepSum_def foldl_steps NUM_DAYS_def Let_def)

lemma stepSum_nonneg: "0 \<le> stepSum goal"
  unfolding stepSum_def by (rule sum_list_nonneg) (auto simp: stepForDay_nonneg)

lemma steps_le_length:
  "(\<Sum>day\<leftarrow>ds. stepForDay (length (completedTasks day)) T) \<le> real (length ds)"
proof (induction ds)
  case Nil
  show ?case by simp
next
  case (Cons d ds)
  have "stepForDay (length (completedTasks d)) T \<le> 1" by (rule stepForDay_le_one)
  with Cons show ?case by simp
qed

lemma stepSum_le_length: "stepSum goal \<le> real (length (days goal))"
  by (simp add: stepSum_def steps_le_length)

lemma toFixed2_nonneg: "0 \<le> x \<Longrightarrow> toFixed2 x = round2 x"
  by (simp add: toFixed2_def round2_def)

lemma round2_nonneg: "0 \<le> x \<Longrightarrow> 0 \<le> round2 x"
proof -
  assume "0 \<le> x"
  then have "round (0::real) \<le> round (x * 100)" by (intro round_mono) simp
  then show ?thesis by (simp add: round2_def)
qed

lemma round2_mono: "x \<le> y \<Longrightarrow> round2 x \<le> round2 y"
proof -
  assume "x \<le> y"
  then have "round (x * 100) \<le> round (y * 100)" by (intro round_mono) simp
  then show ?thesis by (simp add: round2_def divide_right_mono)
qed

text \<open>
  Claim C2. \<open>totalBlocks\<close> is the sum of the daily steps, rounded to two decimal
  places and then clamped to at most 7, and it lies between 0 and 7. This holds for a
  goal with any number of days, so for one with seven.
\<close>

theorem totalBlocks_round_clamp:
  "totalBlocks goal = min 7 (round2 (stepSum goal))
   \<and> 0 \<le> totalBlocks goal \<and> totalBlocks goal \<le> 7"
  by (simp add: totalBlocks_stepSum toFixed2_nonneg stepSum_nonneg round2_nonneg)

theorem totalBlocks_round_clamp_witness:
  "totalBlocks goalSteady = 1.4 \<and> 0 \<le> totalBlocks goalSteady \<and> totalBlocks goalSteady \<le> 7
   \<and> totalBlocks goalLeap = 1"
  using totalBlocks_round_clamp [of goalSteady] totalBlocks_round_clamp [of goalLeap]
  by (simp add: stepSum_def round2_def goalSteady_def goalLeap_def stepForDay_def mkTask_def
      emptyDay_def eval_nat_numeral)

text \<open>
  With at most seven days neither the rounding nor the clamp changes the sum: every
  step is a multiple of one tenth, and seven steps add up to 7 at most.
\<close>

lemma stepForDay_tenths: "\<exists>k::int. stepForDay c T = of_int k / 10"
proof -
  have "stepForDay c T \<in> {0, 1, 0.8, 0.5, 0.2}" by (simp add: stepForDay_def)
  moreover have "(0::real) = of_int 0 / 10" "(1::real) = of_int 10 / 10"
    "(0.8::real) = of_int 8 / 10" "(0.5::real) = of_int 5 / 10" "(0.2::real) = of_int 2 / 10"
    by simp_all
  ultimately show ?thesis by (metis insertE singletonD)
qed

lemma steps_tenths:
  "\<exists>k::int. (\<Sum>day\<leftarrow>ds. stepForDay (length (completedTasks day)) T) = of_int k / 10"
proof (induction ds)
  case Nil
  show ?case by (intro exI[of _ 0]) simp
next
  case (Cons d ds)
  then obtain k :: int
    where k: "(\<Sum>day\<leftarrow>ds. stepForDay (length (completedTasks day)) T) = of_int k / 10"
    by blast
  obtain j :: int where j: "stepForDay (length (completedTasks d)) T = of_int j / 10"
    using stepForDay_tenths by blast
  show ?case by (intro exI[of _ "j + k"]) (simp add: k j add_divide_distrib)
qed

lemma round2_tenths: "round2 (of_int k / 10) = of_int k / 10"
proof -
  have "(of_int k / 10 * 100 :: real) = of_int (k * 10)" by simp
  then have "round (of_int k / 10 * 100 :: real) = k * 10" by (simp only: round_of_int)
  then show ?thesis by (simp add: round2_def)
qed

lemma totalBlocks_exact: "length (days goal) \<le> 7 \<Longrightarrow> totalBlocks goal = stepSum goal"
proof -
  assume len: "length (days goal) \<le> 7"
  obtain k :: int where k: "stepSum goal = of_int k / 10"
    unfolding stepSum_def using steps_tenths by blast
  have "stepSum goal \<le> 7" using stepSum_le_length [of goal] len by simp
  then show ?thesis
    using stepSum_nonneg [of goal]
    by (simp add: totalBlocks_stepSum toFixed2_nonneg) (simp add: k round2_tenths)
qed

section \<open>Streak\<close>

lemma streakLoop_run:
  "n \<le> length ds \<Longrightarrow>
     streakLoop ds (int n - 1) s
       = Inr (s + length (takeWhile (\<lambda>d. completedTasks d \<noteq> []) (rev (take n ds))))"
proof (induction n arbitrary: s)
  case 0
  show ?case by (subst streakLoop.simps) simp
next
  case (Suc m)
  then have m: "m < length ds" by simp
  have tk: "rev (take (Suc m) ds) = ds ! m # rev (take m ds)"
    using m by (simp add: take_Suc_conv_app_nth)
  show ?case
  proof (cases "completedTasks (ds ! m) = []")
    case True
    then show ?thesis using m by (subst streakLoop.simps) (simp add: tk)
  next
    case False
    have "streakLoop ds (int (Suc m) - 1) s = streakLoop ds (int m - 1) (s + 1)"
      using m False by (subst streakLoop.simps) simp
    also have "\<dots> = Inr (s + 1 + length (takeWhile (\<lambda>d. completedTasks d \<noteq> []) (rev (take m ds))))"
      using Suc.IH [of "s + 1"] m by simp
    finally show ?thesis using False by (simp add: tk)
  qed
qed

lemma streakDays_run:
  "length (days goal) = 7 \<Longrightarrow> streakDays goal = Inr (trailingRun (days goal))"
  using streakLoop_run [of 7 "days goal" 0]
  by (simp add: streakDays_def trailingRun_def NUM_DAYS_def)

lemma trailingRun_le: "trailingRun ds \<le> length ds"
  unfolding trailingRun_def by (metis length_rev length_takeWhile_le)

lemma trailingRun_last_empty:
  "ds \<noteq> [] \<Longrightarrow> completedTasks (last ds) = [] \<Longrightarrow> trailingRun ds = 0"
  by (cases ds rule: rev_cases) (simp_all add: trailingRun_def)

lemma trailingRun_all:
  "list_all (\<lambda>d. completedTasks d \<noteq> []) ds \<Longrightarrow> trailingRun ds = length ds"
proof -
  assume "list_all (\<lambda>d. completedTasks d \<noteq> []) ds"
  then have eq: "takeWhile (\<lambda>d. completedTasks d \<noteq> []) (rev ds) = rev ds"
    by (intro takeWhile_eq_all_conv [THEN iffD2]) (simp add: list_all_iff)
  show ?thesis unfolding trailingRun_def eq by simp
qed

text \<open>
  Claim C3. For a goal with seven days \<open>streakDays\<close> returns the length of the
  trailing run of days with a completed task, read backward from day 6 up to the first
  empty day: 0 when day 6 is empty, 7 when no day is empty, and never more than 7.
\<close>

theorem streakDays_trailing:
  "length (days goal) = 7 \<Longrightarrow>
     streakDays goal = Inr (trailingRun (days goal))
     \<and> (completedTasks (days goal ! 6) = [] \<longrightarrow> streakDays goal = Inr 0)
     \<and> (list_all (\<lambda>d. completedTasks d \<noteq> []) (days goal) \<longrightarrow> streakDays goal = Inr 7)
     \<and> (\<exists>n. streakDays goal = Inr n \<and> n \<le> 7)"
proof -
  assume len: "length (days goal) = 7"
  then have ne: "days goal \<noteq> []" by auto
  have l6: "last (days goal) = days goal ! 6" using len ne by (simp add: last_conv_nth)
  have run: "streakDays goal = Inr (trailingRun (days goal))" using len by (rule streakDays_run)
  have "trailingRun (days goal) \<le> 7" using trailingRun_le [of "days goal"] len by simp
  moreover have "completedTasks (days goal ! 6) = [] \<Longrightarrow> trailingRun (days goal) = 0"
    using trailingRun_last_empty [OF ne] l6 by simp
  moreover have "list_all (\<lambda>d. completedTasks d \<noteq> []) (days goal)
      \<Longrightarrow> trailingRun (days goal) = 7"
    using trailingRun_all [of "days goal"] len by simp
  ultimately show ?thesis using run by simp
qed

theorem streakDays_trailing_witness:
  "length (days goalSteady) = 7
   \<and> list_all (\<lambda>d. completedTasks d \<noteq> []) (days goalSteady)
   \<and> streakDays goalSteady = Inr 7
   \<and> length (days goalLeap) = 7
   \<and> completedTasks (days goalLeap ! 6) = []
   \<and> streakDays goalLeap = Inr 0"
proof -
  have a: "length (days goalSteady) = 7" by (simp add: goalSteady_def)
  have b: "list_all (\<lambda>d. completedTasks d \<noteq> []) (days goalSteady)"
    by (simp add: goalSteady_def list_all_iff)
  have c: "length (days goalLeap) = 7" by (simp add: goalLeap_def)
  have d: "completedTasks (days goalLeap ! 6) = []"
    by (simp add: goalLeap_def emptyDay_def)
  show ?thesis
    using streakDays_trailing [OF a] streakDays_trailing [OF c] a b c d by blast
qed

section \<open>Monotonicity of the percentage\<close>

lemma sum_list_update_le:
  fixes f :: "'a \<Rightarrow> real"
  shows "i < length xs \<Longrightarrow> f (xs ! i) \<le> f y
    \<Longrightarrow> sum_list (map f xs) \<le> sum_list (map f (xs[i := y]))"
proof (induction xs arbitrary: i)
  case Nil
  then show ?case by simp
next
  case (Cons x xs)
  show ?case
  proof (cases i)
    case 0
    with Cons.prems show ?thesis by simp
  next
    case (Suc j)
    with Cons.prems have "sum_list (map f xs) \<le> sum_list (map f (xs[j := y]))"
      by (intro Cons.IH) simp_all
    with Suc show ?thesis by simp
  qed
qed

lemma stepSum_mono:
  assumes "i < length (days goal)"
    and "length (completedTasks (days goal ! i)) \<le> length (completedTasks d)"
  shows "stepSum goal \<le> stepSum (goal\<lparr>days := (days goal)[i := d]\<rparr>)"
  unfolding stepSum_def using assms
  by (simp add: sum_list_update_le stepForDay_mono)

text \<open>
  Claim C4. Replacing one day of a goal by a day with at least as many completed tasks,
  all other days and the task list kept, does not lower \<open>completionPct\<close>.
\<close>

theorem completionPct_mono:
  assumes "i < length (days goal)"
    and "length (completedTasks (days goal ! i)) \<le> length (completedTasks d)"
  shows "completionPct goal \<le> completionPct (goal\<lparr>days := (days goal)[i := d]\<rparr>)"
proof -
  let ?g = "goal\<lparr>days := (days goal)[i := d]\<rparr>"
  have "stepSum goal \<le> stepSum ?g" using assms by (rule stepSum_mono)
  then have "round2 (stepSum goal) \<le> round2 (stepSum ?g)" by (rule round2_mono)
  then have "totalBlocks goal \<le> totalBlocks ?g"
    by (simp add: totalBlocks_stepSum toFixed2_nonneg stepSum_nonneg min_le_iff_disj)
  then show ?thesis by (simp add: completionPct_def NUM_DAYS_def divide_right_mono)
qed

theorem completionPct_mono_witness:
  "1 < length (days goalLeap)
   \<and> length (completedTasks (days goalLeap ! 1)) \<le> length (completedTasks (toggled ''a'' emptyDay))
   \<and> completionPct goalLeap
        \<le> completionPct (goalLeap\<lparr>days := (days goalLeap)[1 := toggled ''a'' emptyDay]\<rparr>)"
proof -
  have a: "1 < length (days goalLeap)" by (simp add: goalLeap_def)
  have b: "length (completedTasks (days goalLeap ! 1))
      \<le> length (completedTasks (toggled ''a'' emptyDay))"
    by (simp add: goalLeap_def emptyDay_def)
  show ?thesis using completionPct_mono [OF a b] a b by simp
qed

section \<open>Toggling a task\<close>

lemma map_enumerate_update:
  "map (\<lambda>(idx, x). if idx \<noteq> d then x else f x) (enumerate 0 xs)
     = (if d < length xs then xs[d := f (xs ! d)] else xs)"
  by (rule nth_equalityI) (auto simp: nth_enumerate_eq)

lemma map_enumerate_update':
  "map (\<lambda>(idx, x). if idx = d then f x else x) (enumerate 0 xs)
     = (if d < length xs then xs[d := f (xs ! d)] else xs)"
  by (rule nth_equalityI) (auto simp: nth_enumerate_eq)

lemma set_foldl_setAdd: "set (foldl setAdd acc xs) = set acc \<union> set xs"
  by (induction xs arbitrary: acc) (auto simp: setAdd_def)

lemma set_newSet: "set (newSet xs) = set xs"
  by (simp add: newSet_def set_foldl_setAdd)

lemma toggled_set:
  "set (completedTasks (toggled t day)) =
     (if t \<in> set (completedTasks day) then set (completedTasks day) - {t}
      else insert t (set (completedTasks day)))"
  by (auto simp: toggled_def Let_def set_newSet setDelete_def setAdd_def)

lemma toggled_note: "day_note (toggled t day) = day_note day"
  by (simp add: toggled_def Let_def)

lemma handleToggleTask_eq:
  "handleToggleTask goalId taskId dIndex prev =
     prev\<lparr>goals := map (\<lambda>g. if goal_id g \<noteq> goalId then g
        else g\<lparr>days := (if dIndex < length (days g)
                          then (days g)[dIndex := toggled taskId (days g ! dIndex)]
                          else days g)\<rparr>) (goals prev)\<rparr>"
  unfolding handleToggleTask_def Let_def toggled_def [unfolded Let_def, symmetric]
  by (simp only: map_enumerate_update)

lemma handleUpdateNote_eq:
  "handleUpdateNote goalId dIndex t prev =
     prev\<lparr>goals := map (\<lambda>g. if goal_id g \<noteq> goalId then g
        else g\<lparr>days := (if dIndex < length (days g)
                          then (days g)[dIndex := (days g ! dIndex)\<lparr>day_note := Some t\<rparr>]
                          else days g)\<rparr>) (goals prev)\<rparr>"
  unfolding handleUpdateNote_def Let_def
  by (simp only: map_enumerate_update')

lemma handleUpdateNote_history: "history (handleUpdateNote goalId d t s) = history s"
  by (simp add: handleUpdateNote_def Let_def)

lemma handleToggleTask_history: "history (handleToggleTask goalId taskId d s) = history s"
  by (simp add: handleToggleTask_def Let_def)

text \<open>
  Claim C8. \<open>handleToggleTask\<close> keeps the week start, the history and the number of
  goals. A goal with another id is returned as it is. A goal with the given id keeps
  its id, label, section, tasks and number of days, and every day but the one at the
  given index; at that index, when it lies within the days, the note is kept, the
  membership of the task id among the completed tasks is flipped and that of every
  other id is kept. When no goal has the given id the state is returned unchanged.
\<close>

theorem handleToggleTask_frame:
  assumes "s' = handleToggleTask goalId taskId d s"
  shows "weekStartISO s' = weekStartISO s \<and> history s' = history s
     \<and> length (goals s') = length (goals s)
     \<and> (\<forall>k<length (goals s).
           goal_id (goals s' ! k) = goal_id (goals s ! k)
         \<and> goal_label (goals s' ! k) = goal_label (goals s ! k)
         \<and> goal_section (goals s' ! k) = goal_section (goals s ! k)
         \<and> tasks (goals s' ! k) = tasks (goals s ! k)
         \<and> length (days (goals s' ! k)) = length (days (goals s ! k))
         \<and> (goal_id (goals s ! k) \<noteq> goalId \<longrightarrow> goals s' ! k = goals s ! k)
         \<and> (\<forall>j<length (days (goals s ! k)). j \<noteq> d \<longrightarrow>
               days (goals s' ! k) ! j = days (goals s ! k) ! j)
         \<and> (goal_id (goals s ! k) = goalId \<and> d < length (days (goals s ! k)) \<longrightarrow>
               day_note (days (goals s' ! k) ! d) = day_note (days (goals s ! k) ! d)
             \<and> (taskId \<in> set (completedTasks (days (goals s' ! k) ! d))
                  \<longleftrightarrow> taskId \<notin> set (completedTasks (days (goals s ! k) ! d)))
             \<and> (\<forall>t. t \<noteq> taskId \<longrightarrow>
                  (t \<in> set (completedTasks (days (goals s' ! k) ! d))
                    \<longleftrightarrow> t \<in> set (completedTasks (days (goals s ! k) ! d))))))
     \<and> ((\<forall>g\<in>set (goals s). goal_id g \<noteq> goalId) \<longrightarrow> s' = s)"
proof -
  have top: "weekStartISO s' = weekStartISO s \<and> history s' = history s
     \<and> length (goals s') = length (goals s)"
    by (simp add: assms handleToggleTask_eq)
  have noop: "(\<forall>g\<in>set (goals s). goal_id g \<noteq> goalId) \<longrightarrow> s' = s"
  proof
    assume "\<forall>g\<in>set (goals s). goal_id g \<noteq> goalId"
    then have "map (\<lambda>g. if goal_id g \<noteq> goalId then g
        else g\<lparr>days := (if d < length (days g)
                          then (days g)[d := toggled taskId (days g ! d)]
                          else days g)\<rparr>) (goals s) = goals s"
      by (intro map_idI) simp
    then show "s' = s" by (simp add: assms handleToggleTask_eq)
  qed
  have each: "goal_id (goals s' ! k) = goal_id (goals s ! k)
         \<and> goal_label (goals s' ! k) = goal_label (goals s ! k)
         \<and> goal_section (goals s' ! k) = goal_section (goals s ! k)
         \<and> tasks (goals s' ! k) = tasks (goals s ! k)
         \<and> length (days (goals s' ! k)) = length (days (goals s ! k))
         \<and> (goal_id (goals s ! k) \<noteq> goalId \<longrightarrow> goals s' ! k = goals s ! k)
         \<and> (\<forall>j<length (days (goals s ! k)). j \<noteq> d \<longrightarrow>
               days (goals s' ! k) ! j = days (goals s ! k) ! j)
         \<and> (goal_id (goals s ! k) = goalId \<and> d < length (days (goals s ! k)) \<longrightarrow>
               day_note (days (goals s' ! k) ! d) = day_note (days (goals s ! k) ! d)
             \<and> (taskId \<in> set (completedTasks (days (goals s' ! k) ! d))
                  \<longleftrightarrow> taskId \<notin> set (completedTasks (days (goals s ! k) ! d)))
             \<and> (\<forall>t. t \<noteq> taskId \<longrightarrow>
                  (t \<in> set (completedTasks (days (goals s' ! k) ! d))
                    \<longleftrightarrow> t \<in> set (completedTasks (days (goals s ! k) ! d)))))"
    if k: "k < length (goals s)" for k
  proof (cases "goal_id (goals s ! k) = goalId")
    case False
    then have "goals s' ! k = goals s ! k" using k by (simp add: assms handleToggleTask_eq)
    with False show ?thesis by simp
  next
    case True
    let ?g = "goals s ! k"
    have g': "goals s' ! k = ?g\<lparr>days := (if d < length (days ?g)
                          then (days ?g)[d := toggled taskId (days ?g ! d)]
                          else days ?g)\<rparr>"
      using k True by (simp add: assms handleToggleTask_eq)
    show ?thesis unfolding g' using True
      by (simp add: toggled_set toggled_note)
  qed
  from top noop each show ?thesis by blast
qed

theorem handleToggleTask_frame_witness:
  "(1::nat) < length (goals sampleState)
   \<and> goal_id (goals sampleState ! 1) = ''steady''
   \<and> 2 < length (days (goals sampleState ! 1))
   \<and> ''b'' \<notin> set (completedTasks (days (goals sampleState ! 1) ! 2))
   \<and> ''b'' \<in> set (completedTasks (days (goals (handleToggleTask ''steady'' ''b'' 2 sampleState) ! 1) ! 2))
   \<and> goals (handleToggleTask ''steady'' ''b'' 2 sampleState) ! 0 = goals sampleState ! 0
   \<and> ''nobody'' \<notin> set (map goal_id (goals sampleState))
   \<and> handleToggleTask ''nobody'' ''b'' 2 sampleState = sampleState"
proof -
  have a: "(1::nat) < length (goals sampleState)" "(0::nat) < length (goals sampleState)"
    by (simp_all add: sampleState_def)
  have b: "goal_id (goals sampleState ! 1) = ''steady''" "goal_id (goals sampleState ! 0) \<noteq> ''steady''"
    by (simp_all add: sampleState_def goalSteady_def goalLeap_def)
  have c: "2 < length (days (goals sampleState ! 1))"
    by (simp add: sampleState_def goalSteady_def)
  have d: "''b'' \<notin> set (completedTasks (days (goals sampleState ! 1) ! 2))"
    by (simp add: sampleState_def goalSteady_def)
  have e: "\<forall>g\<in>set (goals sampleState). goal_id g \<noteq> ''nobody''"
    by (simp add: sampleState_def goalSteady_def goalLeap_def)
  have f: "''nobody'' \<notin> set (map goal_id (goals sampleState))"
    by (simp add: sampleState_def goalSteady_def goalLeap_def)
  show ?thesis
    using handleToggleTask_frame [OF refl, of "''steady''" "''b''" 2 sampleState]
      handleToggleTask_frame [OF refl, of "''nobody''" "''b''" 2 sampleState]
      a b c d e f
    by blast
qed

section \<open>Week rollover and the best goal\<close>

lemma foldl_add_sum_list:
  "foldl (\<lambda>sum x. sum + h x) (a::nat) xs = a + sum_list (map h xs)"
  by (induction xs arbitrary: a) simp_all

lemma bestOf_firstMax:
  "bestOf gs = map_option (\<lambda>g. (g, completionPct g)) (firstMax gs)"
proof (induction gs)
  case Nil
  show ?case by (simp add: bestOf_def)
next
  case (Cons g gs)
  note IH = Cons.IH
  let ?ps = "sort_key (\<lambda>p. - snd p) (map (\<lambda>g. (g, completionPct g)) gs)"
  show ?case
  proof (cases ?ps)
    case Nil
    with IH have "firstMax gs = None" by (simp add: bestOf_def)
    with Nil show ?thesis by (simp add: bestOf_def)
  next
    case ps: (Cons p ps')
    with IH have "map_option (\<lambda>g. (g, completionPct g)) (firstMax gs) = Some p"
      by (simp add: bestOf_def)
    then obtain b where b: "firstMax gs = Some b" "p = (b, completionPct b)"
      by (cases "firstMax gs") auto
    with ps show ?thesis by (simp add: bestOf_def not_less)
  qed
qed

lemma firstMax_None: "firstMax gs = None \<longleftrightarrow> gs = []"
  by (cases gs) (simp_all split: option.splits)

lemma firstMax_first:
  "firstMax gs = Some b \<Longrightarrow>
     \<exists>k<length gs. gs ! k = b
        \<and> (\<forall>j<length gs. completionPct (gs ! j) \<le> completionPct b)
        \<and> (\<forall>j<k. completionPct (gs ! j) < completionPct b)"
proof (induction gs arbitrary: b)
  case Nil
  then show ?case by simp
next
  case (Cons g gs)
  show ?case
  proof (cases "firstMax gs")
    case None
    then have "gs = []" by (simp add: firstMax_None)
    with Cons.prems show ?thesis by simp
  next
    case (Some c)
    from Cons.IH [OF Some] obtain k where k: "k < length gs" "gs ! k = c"
      "\<forall>j<length gs. completionPct (gs ! j) \<le> completionPct c"
      "\<forall>j<k. completionPct (gs ! j) < completionPct c" by blast
    show ?thesis
    proof (cases "completionPct g < completionPct c")
      case True
      with Some Cons.prems have bc: "b = c" by simp
      have "Suc k < length (g # gs)" using k(1) by simp
      moreover have "(g # gs) ! Suc k = b" using k(2) bc by simp
      moreover have "\<forall>j<length (g # gs). completionPct ((g # gs) ! j) \<le> completionPct b"
        using k(3) True bc by (auto simp: nth_Cons split: nat.splits)
      moreover have "\<forall>j<Suc k. completionPct ((g # gs) ! j) < completionPct b"
        using k(4) True bc by (auto simp: nth_Cons split: nat.splits)
      ultimately show ?thesis by blast
    next
      case False
      with Some Cons.prems have bg: "b = g" by simp
      have "\<forall>j<length (g # gs). completionPct ((g # gs) ! j) \<le> completionPct b"
        using k(3) False bg by (fastforce simp: nth_Cons split: nat.splits)
      then show ?thesis using bg by (intro exI[of _ 0]) simp
    qed
  qed
qed

text \<open>
  Claim C5. Where the \<^verbatim>\<open>Date\<close> library can print the end of the stored week,
  \<open>handleStartNewWeek\<close> returns a state whose history is the old history followed
  by one summary, so that the old summaries are a prefix of the new history, and a later
  toggle or note edit leaves the history alone. The week start is the rollover date and
  every goal has seven fresh empty days. The summary carries the week start, the end
  date, the number of completed tasks summed over all goals and days, and seven slots per
  task of every goal. Without goals there is no best goal and its percentage is 0;
  otherwise the best goal is at the first index that reaches the highest percentage.
\<close>

theorem handleStartNewWeek_appends:
  assumes "endDate (weekStartISO s) = Inr e"
  shows "\<exists>s' w. handleStartNewWeek endDate today s = Inr s'
     \<and> history s' = history s @ [w]
     \<and> take (length (history s)) (history s') = history s
     \<and> history (handleToggleTask goalId taskId d s') = history s'
     \<and> history (handleUpdateNote goalId d t s') = history s'
     \<and> weekStartISO s' = today
     \<and> goals s' = map (\<lambda>g. g\<lparr>days := replicate 7 emptyDay\<rparr>) (goals s)
     \<and> summary_id w = weekStartISO s \<and> startISO w = weekStartISO s \<and> endISO w = e
     \<and> totalCompletedTasks w = (\<Sum>g\<leftarrow>goals s. \<Sum>day\<leftarrow>days g. length (completedTasks day))
     \<and> totalPossibleTasks w = (\<Sum>g\<leftarrow>goals s. length (tasks g) * 7)
     \<and> (goals s = [] \<longrightarrow>
           bestGoalId w = None \<and> bestGoalLabel w = None \<and> bestGoalCompletion w = 0)
     \<and> (goals s \<noteq> [] \<longrightarrow>
          (\<exists>k<length (goals s).
              bestGoalId w = Some (goal_id (goals s ! k))
            \<and> bestGoalLabel w = Some (goal_label (goals s ! k))
            \<and> bestGoalCompletion w = completionPct (goals s ! k)
            \<and> (\<forall>j<length (goals s). completionPct (goals s ! j) \<le> completionPct (goals s ! k))
            \<and> (\<forall>j<k. completionPct (goals s ! j) < completionPct (goals s ! k))))"
proof -
  let ?w = "weekSummary e s"
  let ?s' = "\<lparr>weekStartISO = today, goals = map (\<lambda>g. g\<lparr>days := emptyDays\<rparr>) (goals s),
              history = history s @ [?w]\<rparr>"
  have run: "handleStartNewWeek endDate today s = Inr ?s'"
    using assms by (simp add: handleStartNewWeek_def Let_def)
  have tot: "totalCompletedTasks ?w = (\<Sum>g\<leftarrow>goals s. \<Sum>day\<leftarrow>days g. length (completedTasks day))"
    by (simp add: weekSummary_def Let_def foldl_add_sum_list)
  have pos: "totalPossibleTasks ?w = (\<Sum>g\<leftarrow>goals s. length (tasks g) * 7)"
    by (simp add: weekSummary_def Let_def foldl_add_sum_list NUM_DAYS_def)
  have ids: "summary_id ?w = weekStartISO s \<and> startISO ?w = weekStartISO s \<and> endISO ?w = e"
    by (simp add: weekSummary_def Let_def)
  have none: "goals s = [] \<longrightarrow>
      bestGoalId ?w = None \<and> bestGoalLabel ?w = None \<and> bestGoalCompletion ?w = 0"
    by (simp add: weekSummary_def Let_def bestOf_firstMax)
  have best: "goals s \<noteq> [] \<longrightarrow>
          (\<exists>k<length (goals s).
              bestGoalId ?w = Some (goal_id (goals s ! k))
            \<and> bestGoalLabel ?w = Some (goal_label (goals s ! k))
            \<and> bestGoalCompletion ?w = completionPct (goals s ! k)
            \<and> (\<forall>j<length (goals s). completionPct (goals s ! j) \<le> completionPct (goals s ! k))
            \<and> (\<forall>j<k. completionPct (goals s ! j) < completionPct (goals s ! k)))"
  proof
    assume "goals s \<noteq> []"
    then obtain b where b: "firstMax (goals s) = Some b"
      using firstMax_None [of "goals s"] by (cases "firstMax (goals s)") auto
    from firstMax_first [OF b] obtain k where k: "k < length (goals s)" "goals s ! k = b"
      "\<forall>j<length (goals s). completionPct (goals s ! j) \<le> completionPct b"
      "\<forall>j<k. completionPct (goals s ! j) < completionPct b" by blast
    have "bestGoalId ?w = Some (goal_id b) \<and> bestGoalLabel ?w = Some (goal_label b)
        \<and> bestGoalCompletion ?w = completionPct b"
      by (simp add: weekSummary_def Let_def bestOf_firstMax b)
    with k show "\<exists>k<length (goals s).
              bestGoalId ?w = Some (goal_id (goals s ! k))
            \<and> bestGoalLabel ?w = Some (goal_label (goals s ! k))
            \<and> bestGoalCompletion ?w = completionPct (goals s ! k)
            \<and> (\<forall>j<length (goals s). completionPct (goals s ! j) \<le> completionPct (goals s ! k))
            \<and> (\<forall>j<k. completionPct (goals s ! j) < completionPct (goals s ! k))"
      by blast
  qed
  have frame: "history ?s' = history s @ [?w]
     \<and> take (length (history s)) (history ?s') = history s
     \<and> history (handleToggleTask goalId taskId d ?s') = history ?s'
     \<and> history (handleUpdateNote goalId d t ?s') = history ?s'
     \<and> weekStartISO ?s' = today
     \<and> goals ?s' = map (\<lambda>g. g\<lparr>days := replicate 7 emptyDay\<rparr>) (goals s)"
    by (simp add: handleToggleTask_history handleUpdateNote_history emptyDays_def NUM_DAYS_def)
  show ?thesis
    using run tot pos ids none best frame by blast
qed

theorem handleStartNewWeek_appends_witness:
  "sampleEndDate (weekStartISO sampleState) = Inr ''2025-01-12''
   \<and> goals sampleState \<noteq> []
   \<and> (\<exists>s' w. handleStartNewWeek sampleEndDate ''2025-01-13'' sampleState = Inr s'
        \<and> history s' = history sampleState @ [w]
        \<and> weekStartISO s' = ''2025-01-13''
        \<and> goals s' = map (\<lambda>g. g\<lparr>days := replicate 7 emptyDay\<rparr>) (goals sampleState)
        \<and> totalCompletedTasks w = 11 \<and> totalPossibleTasks w = 42
        \<and> (\<exists>k<length (goals sampleState).
              bestGoalId w = Some (goal_id (goals sampleState ! k))
            \<and> (\<forall>j<k. completionPct (goals sampleState ! j)
                    < completionPct (goals sampleState ! k))))
   \<and> goals (sampleState\<lparr>goals := []\<rparr>) = []
   \<and> (\<exists>s' w. handleStartNewWeek sampleEndDate ''2025-01-13'' (sampleState\<lparr>goals := []\<rparr>) = Inr s'
        \<and> history s' = history (sampleState\<lparr>goals := []\<rparr>) @ [w]
        \<and> bestGoalId w = None \<and> bestGoalCompletion w = 0)"
proof -
  have a: "sampleEndDate (weekStartISO sampleState) = Inr ''2025-01-12''"
    by (simp add: sampleEndDate_def sampleState_def)
  have a': "sampleEndDate (weekStartISO (sampleState\<lparr>goals := []\<rparr>)) = Inr ''2025-01-12''"
    by (simp add: sampleEndDate_def sampleState_def)
  have b: "goals sampleState \<noteq> []" "goals (sampleState\<lparr>goals := []\<rparr>) = []"
    by (simp_all add: sampleState_def)
  have c: "(\<Sum>g\<leftarrow>goals sampleState. \<Sum>day\<leftarrow>days g. length (completedTasks day)) = 11"
    "(\<Sum>g\<leftarrow>goals sampleState. length (tasks g) * 7) = 42"
    by (simp_all add: sampleState_def goalLeap_def goalSteady_def emptyDay_def eval_nat_numeral)
  have 1: "\<exists>s' w. handleStartNewWeek sampleEndDate ''2025-01-13'' sampleState = Inr s'
        \<and> history s' = history sampleState @ [w]
        \<and> weekStartISO s' = ''2025-01-13''
        \<and> goals s' = map (\<lambda>g. g\<lparr>days := replicate 7 emptyDay\<rparr>) (goals sampleState)
        \<and> totalCompletedTasks w = 11 \<and> totalPossibleTasks w = 42
        \<and> (\<exists>k<length (goals sampleState).
              bestGoalId w = Some (goal_id (goals sampleState ! k))
            \<and> (\<forall>j<k. completionPct (goals sampleState ! j)
                    < completionPct (goals sampleState ! k)))"
    using handleStartNewWeek_appends [where endDate = sampleEndDate and s = sampleState
        and today = "''2025-01-13''" and goalId = "''leap''" and taskId = "''a''" and d = 0
        and t = "''note''", OF a] b(1)
    unfolding c by blast
  have 2: "\<exists>s' w. handleStartNewWeek sampleEndDate ''2025-01-13'' (sampleState\<lparr>goals := []\<rparr>) = Inr s'
        \<and> history s' = history (sampleState\<lparr>goals := []\<rparr>) @ [w]
        \<and> bestGoalId w = None \<and> bestGoalCompletion w = 0"
    using handleStartNewWeek_appends [where endDate = sampleEndDate
        and s = "sampleState\<lparr>goals := []\<rparr>"
        and today = "''2025-01-13''" and goalId = "''leap''" and taskId = "''a''" and d = 0
        and t = "''note''", OF a'] b(2)
    by blast
  from 1 2 a b show ?thesis by blast
qed

section \<open>Seven days per goal\<close>

lemma weekInv_default: "weekInv (defaultState today)"
  by (simp add: weekInv_def defaultState_def seedGoals_def emptyDays_def NUM_DAYS_def)

lemma weekInv_toggle: "weekInv s \<Longrightarrow> weekInv (handleToggleTask goalId taskId d s)"
  by (auto simp: weekInv_def handleToggleTask_eq list_all_iff)

lemma weekInv_note: "weekInv s \<Longrightarrow> weekInv (handleUpdateNote goalId d t s)"
  by (auto simp: weekInv_def handleUpdateNote_eq list_all_iff)

lemma weekInv_rollover: "handleStartNewWeek endDate today s = Inr s' \<Longrightarrow> weekInv s'"
  by (auto simp: weekInv_def handleStartNewWeek_def Let_def list_all_iff emptyDays_def NUM_DAYS_def
      split: sum.splits)

text \<open>
  Claim C9. In every state that toggles, note edits and rollovers reach from a seed
  state, every goal has exactly seven days.
\<close>

theorem reachable_seven_days:
  "reachable endDate s \<Longrightarrow> \<forall>g\<in>set (goals s). length (days g) = 7"
proof -
  assume "reachable endDate s"
  then have "weekInv s"
    by (induction rule: reachable.induct)
       (simp_all add: weekInv_default weekInv_toggle weekInv_note weekInv_rollover)
  then show ?thesis by (simp add: weekInv_def list_all_iff)
qed

theorem reachable_seven_days_witness:
  "\<exists>s'. handleStartNewWeek sampleEndDate ''2025-01-13''
          (handleUpdateNote ''sdms'' 2 ''done''
            (handleToggleTask ''sdms'' ''sdms-quiz'' 2 (defaultState ''2025-01-06''))) = Inr s'
      \<and> reachable sampleEndDate s'
      \<and> list_all (\<lambda>g. length (days g) = 7) (goals s')"
proof -
  let ?s = "handleUpdateNote ''sdms'' 2 ''done''
      (handleToggleTask ''sdms'' ''sdms-quiz'' 2 (defaultState ''2025-01-06''))"
  have r: "reachable sampleEndDate ?s"
    by (intro reachable.setNote reachable.toggle reachable.seed)
  have "weekStartISO ?s = ''2025-01-06''"
    by (simp add: handleUpdateNote_def handleToggleTask_def defaultState_def Let_def)
  then have "sampleEndDate (weekStartISO ?s) = Inr ''2025-01-12''"
    by (simp add: sampleEndDate_def)
  then obtain s' where s': "handleStartNewWeek sampleEndDate ''2025-01-13'' ?s = Inr s'"
    by (simp add: handleStartNewWeek_def Let_def)
  from r s' have "reachable sampleEndDate s'" by (rule reachable.rollover)
  with reachable_seven_days [of sampleEndDate s'] s' show ?thesis
    by (auto simp: list_all_iff)
qed

text \<open>
  A reachable state has a note on every day, so that none of its fields is
  \<^verbatim>\<open>undefined\<close> when the state is written out.
\<close>

lemma notesDefined_default: "notesDefined (defaultState today)"
  by (simp add: notesDefined_def defaultState_def seedGoals_def emptyDays_def emptyDay_def
      NUM_DAYS_def list_all_iff)

lemma list_all_update: "list_all P xs \<Longrightarrow> P y \<Longrightarrow> list_all P (xs[i := y])"
  by (auto simp: list_all_iff dest: set_update_subset_insert [THEN subsetD])

lemma notes_update:
  assumes "list_all (\<lambda>d. day_note d \<noteq> None) ds" and "\<And>x. day_note x \<noteq> None \<Longrightarrow> day_note (f x) \<noteq> None"
  shows "list_all (\<lambda>d. day_note d \<noteq> None) (if i < length ds then ds[i := f (ds ! i)] else ds)"
proof (cases "i < length ds")
  case True
  with assms(1) have "day_note (ds ! i) \<noteq> None" by (simp add: list_all_length)
  then have "day_note (f (ds ! i)) \<noteq> None" by (rule assms(2))
  with assms(1) True show ?thesis by (simp add: list_all_update)
next
  case False
  with assms(1) show ?thesis by simp
qed

lemma notesDefined_toggle:
  assumes "notesDefined s"
  shows "notesDefined (handleToggleTask goalId taskId d s)"
proof -
  have "list_all (\<lambda>d. day_note d \<noteq> None)
      (if d < length (days g) then (days g)[d := toggled taskId (days g ! d)] else days g)"
    if "g \<in> set (goals s)" for g
  proof (rule notes_update)
    show "list_all (\<lambda>d. day_note d \<noteq> None) (days g)"
      using assms that by (simp add: notesDefined_def list_all_iff)
  qed (simp add: toggled_note)
  with assms show ?thesis
    by (auto simp: notesDefined_def handleToggleTask_eq list_all_iff)
qed

lemma notesDefined_note:
  assumes "notesDefined s"
  shows "notesDefined (handleUpdateNote goalId d t s)"
proof -
  have "list_all (\<lambda>d. day_note d \<noteq> None)
      (if d < length (days g) then (days g)[d := (days g ! d)\<lparr>day_note := Some t\<rparr>] else days g)"
    if "g \<in> set (goals s)" for g
  proof (rule notes_update)
    show "list_all (\<lambda>d. day_note d \<noteq> None) (days g)"
      using assms that by (simp add: notesDefined_def list_all_iff)
  qed simp
  with assms show ?thesis
    by (auto simp: notesDefined_def handleUpdateNote_eq list_all_iff)
qed

lemma notesDefined_rollover: "handleStartNewWeek endDate today s = Inr s' \<Longrightarrow> notesDefined s'"
  by (auto simp: notesDefined_def handleStartNewWeek_def Let_def list_all_iff emptyDays_def
      emptyDay_def split: sum.splits)

lemma reachable_notesDefined: "reachable endDate s \<Longrightarrow> notesDefined s"
  by (induction rule: reachable.induct)
     (simp_all add: notesDefined_default notesDefined_toggle notesDefined_note
        notesDefined_rollover)

section \<open>Loading and saving\<close>

text \<open>
  Claim C7. \<open>loadState\<close> always returns a state and never an error: without a
  stored entry it returns the seed state, and so it does when the stored text is not JSON.
\<close>

theorem loadState_total:
  "(\<exists>state. loadState JSON_parse today b = Inr state)
   \<and> (items b STORAGE_KEY = None \<longrightarrow> loadState JSON_parse today b = Inr (defaultState today))
   \<and> (\<forall>raw e. items b STORAGE_KEY = Some raw \<and> JSON_parse raw = Inl e \<longrightarrow>
         loadState JSON_parse today b = Inr (defaultState today))"
  by (auto simp: loadState_def loadState_try_def getItem_def split: sum.splits option.splits)

theorem loadState_total_witness:
  "items sampleBrowser STORAGE_KEY = None
   \<and> loadState (\<lambda>raw. Inl SyntaxError) ''2025-01-06'' sampleBrowser = Inr (defaultState ''2025-01-06'')
   \<and> items (sampleBrowser\<lparr>items := [STORAGE_KEY \<mapsto> ''{oops'']\<rparr>) STORAGE_KEY = Some ''{oops''
   \<and> loadState (\<lambda>raw. Inl SyntaxError) ''2025-01-06''
        (sampleBrowser\<lparr>items := [STORAGE_KEY \<mapsto> ''{oops'']\<rparr>) = Inr (defaultState ''2025-01-06'')"
proof -
  have a: "items sampleBrowser STORAGE_KEY = None" by (simp add: sampleBrowser_def)
  have b: "items (sampleBrowser\<lparr>items := [STORAGE_KEY \<mapsto> ''{oops'']\<rparr>) STORAGE_KEY = Some ''{oops''"
    by simp
  show ?thesis
    using loadState_total [of "\<lambda>raw. Inl SyntaxError" "''2025-01-06''" sampleBrowser]
      loadState_total [of "\<lambda>raw. Inl SyntaxError" "''2025-01-06''"
        "sampleBrowser\<lparr>items := [STORAGE_KEY \<mapsto> ''{oops'']\<rparr>"] a b
    by blast
qed

section \<open>Round trip of a JSON document\<close>

lemma hexVal_hexDigit: "n < 16 \<Longrightarrow> hexVal (hexDigit n) = Some n"
  by (auto simp: hexVal_def hexDigit_def Let_def)

lemma hex4_control:
  "isControl c \<Longrightarrow>
     hex4 (CHR ''0'') (CHR ''0'') (hexDigit (of_char c div 16)) (hexDigit (of_char c mod 16)) = Some c"
proof -
  assume "isControl c"
  then have lt: "(of_char c :: nat) < 32" by (simp add: isControl_def)
  then have a: "hexVal (hexDigit (of_char c div 16)) = Some (of_char c div 16)"
    by (intro hexVal_hexDigit) simp
  have b: "hexVal (hexDigit (of_char c mod 16)) = Some (of_char c mod 16)"
    by (intro hexVal_hexDigit) simp
  have z: "hexVal (CHR ''0'') = Some 0" by (simp add: hexVal_def)
  have "char_of (16 * (of_char c div 16) + of_char c mod 16 :: nat) = c" by simp
  then show ?thesis by (simp add: hex4_def a b z)
qed

lemma parseChars_escape:
  "parseChars (escapeChar c @ rest) =
     (case parseChars rest of None \<Rightarrow> None | Some (str, r) \<Rightarrow> Some (c # str, r))"
proof -
  consider "c = dquote" | "c = bslash" | "c = CHR 0x08" | "c = CHR 0x0C" | "c = CHR 0x0A"
    | "c = CHR 0x0D" | "c = CHR 0x09"
    | "c \<noteq> dquote" "c \<noteq> bslash" "c \<noteq> CHR 0x08" "c \<noteq> CHR 0x0C" "c \<noteq> CHR 0x0A"
      "c \<noteq> CHR 0x0D" "c \<noteq> CHR 0x09" "isControl c"
    | "c \<noteq> dquote" "c \<noteq> bslash" "\<not> isControl c"
    by blast
  then show ?thesis
  proof cases
    case 8
    then show ?thesis
      by (simp add: escapeChar_def hex4_control) (simp add: dquote_def bslash_def)
  next
    case 9
    then show ?thesis by (auto simp: escapeChar_def isControl_def)
  qed (auto simp: escapeChar_def unescapeChar_def dquote_def bslash_def)
qed

lemma parseChars_quote:
  "parseChars (concat (map escapeChar s) @ dquote # rest) = Some (s, rest)"
  by (induction s) (simp_all add: parseChars_escape)

lemma digits_nonempty: "digits n \<noteq> []"
  by (subst digits.simps) simp

lemma digits_isDigit: "list_all isDigit (digits n)"
proof (induction n rule: digits.induct)
  case (1 n)
  show ?case
  proof (cases "n < 10")
    case True
    then show ?thesis by (subst digits.simps) (simp add: isDigit_def)
  next
    case False
    have "n mod 10 < 10" by simp
    then have "isDigit (char_of (48 + n mod 10))" by (simp add: isDigit_def)
    with False 1 show ?thesis by (subst digits.simps) simp
  qed
qed

lemma decimal_snoc: "decimal (t @ [c]) = 10 * decimal t + (of_char c - 48)"
  by (simp add: decimal_def)

lemma decimal_digits: "decimal (digits n) = n"
proof (induction n rule: digits.induct)
  case (1 n)
  show ?case
  proof (cases "n < 10")
    case True
    then show ?thesis by (subst digits.simps) (simp add: decimal_def)
  next
    case False
    have "n mod 10 < 10" by simp
    then have "(of_char (char_of (48 + n mod 10) :: char) :: nat) - 48 = n mod 10" by simp
    with False 1 show ?thesis by (subst digits.simps) (simp add: decimal_snoc)
  qed
qed

lemma digits_no_leading_zero: "length (digits n) = 1 \<or> hd (digits n) \<noteq> CHR ''0''"
proof (induction n rule: digits.induct)
  case (1 n)
  show ?case
  proof (cases "n < 10")
    case True
    then show ?thesis by (subst digits.simps) simp
  next
    case False
    then have IH: "length (digits (n div 10)) = 1 \<or> hd (digits (n div 10)) \<noteq> CHR ''0''"
      using 1 by simp
    have pos: "0 < n div 10" using False by simp
    have "hd (digits (n div 10)) \<noteq> CHR ''0''"
    proof (cases "n div 10 < 10")
      case True
      with pos have "(of_char (char_of (48 + n div 10) :: char) :: nat) \<noteq> of_char (CHR ''0'')"
        by simp
      then have "(char_of (48 + n div 10) :: char) \<noteq> CHR ''0''" by metis
      with True show ?thesis by (subst digits.simps) simp
    next
      case F: False
      then have "length (digits (n div 10)) \<noteq> 1"
        by (subst digits.simps) (simp add: digits_nonempty)
      with IH show ?thesis by simp
    qed
    then have "hd (digits n) \<noteq> CHR ''0''"
      using False by (subst digits.simps) (simp add: digits_nonempty)
    then show ?thesis by simp
  qed
qed

lemma isNatToken_digits: "isNatToken (digits n)"
  using digits_no_leading_zero [of n]
  by (simp add: isNatToken_def digits_nonempty digits_isDigit)

lemma numberPrints_nat: "n < 10 ^ 21 \<Longrightarrow> numberPrints sh rd (real n)"
proof -
  assume "n < 10 ^ 21"
  then have "real n < 10 ^ 21" by (metis of_nat_less_iff of_nat_numeral of_nat_power)
  then have sh: "showNum sh (real n) = digits n" by (simp add: showNum_def)
  have "isDigit (hd (digits n))"
    using digits_isDigit [of n] digits_nonempty [of n] by (cases "digits n") simp_all
  moreover have "list_all numChar (digits n)"
    using digits_isDigit [of n] by (simp add: list_all_iff numChar_def)
  ultimately show ?thesis
    by (simp add: numberPrints_def sh readNum_def isNatToken_digits decimal_digits
        digits_nonempty numStart_def)
qed


lemma delimited_cases:
  "delimited rest \<Longrightarrow> rest = [] \<or> (\<exists>c cs. rest = c # cs \<and> (c = CHR '','' \<or> c = CHR '']'' \<or> c = CHR ''}''))"
  by (cases rest) (simp_all add: delimited_def)









lemma parseMember_head:
  "parseChars (tl (quoteJSONString k) @ rest) = Some (k, rest) \<and> hd (quoteJSONString k) = dquote
   \<and> quoteJSONString k \<noteq> []"
  by (simp add: quoteJSONString_def parseChars_quote)








lemma asString_JStr: "asString (JStr s) = Some s"
  by (simp add: asString_def)














lemma numbersPrint_small:
  assumes "list_all (\<lambda>w. totalCompletedTasks w < 10 ^ 21 \<and> totalPossibleTasks w < 10 ^ 21
      \<and> (\<exists>n<10 ^ 21. bestGoalCompletion w = real n)) (history s)"
  shows "numbersPrint sh rd s"
  using assms by (auto simp: numbersPrint_def list_all_iff numberPrints_nat)



section \<open>The two sample runs\<close>







section \<open>Saving, then loading\<close>




end
